theory Spec2Isabelle
  imports Complex_Main "HOL-Library.Sublist"
begin

section \<open>Data model\<close>

text \<open>
  The two data frames of \<^verbatim>\<open>data_loader.load_data\<close>. A row of \<^verbatim>\<open>movies_df\<close> carries the
  movie id, the cleaned title and the genre tags; a row of \<^verbatim>\<open>ratings_df\<close> is one line of
  \<^verbatim>\<open>u.data\<close>. A data frame is the list of its rows, in row order; \<^verbatim>\<open>movies_df\<close> keeps the
  default index \<open>0, 1, 2, ...\<close>, so the row position is the index value.
\<close>

record movie_row =
  movie_id :: int
  title :: string
  genres :: "string list"

record rating_row =
  r_user_id :: int
  r_movie_id :: int
  r_rating :: real
  r_timestamp :: int

text \<open>The exceptions the modelled calls can raise.\<close>

datatype py_error = KeyError | ValueError | IndexError

section \<open>Python and pandas primitives\<close>

text \<open>
  A Python slice \<^verbatim>\<open>xs[lo:hi]\<close>: a negative bound counts from the end, and both bounds are
  clamped to the list.
\<close>

definition py_clamp :: "nat \<Rightarrow> int \<Rightarrow> nat" where
  "py_clamp n i = (if i < 0 then nat (int n + i) else min n (nat i))"

definition py_slice :: "int \<Rightarrow> int \<Rightarrow> 'a list \<Rightarrow> 'a list" where
  "py_slice lo hi xs =
     (let a = py_clamp (length xs) lo; b = py_clamp (length xs) hi
      in take (b - a) (drop a xs))"

text \<open>
  Sorting scored entries by descending score. Python's \<^verbatim>\<open>sorted(..., reverse=True)\<close> is
  stable: entries with equal scores keep their original order. pandas sorts a descending
  \<^verbatim>\<open>sort_values\<close> the same way round (reverse, sort ascending, reverse again); where
  its sort leaves the order of equal scores open, the results on the collaborative ranking
  below use only that the sorted series is a rearrangement of the original.
\<close>

definition sort_desc :: "('a \<times> real) list \<Rightarrow> ('a \<times> real) list" where
  "sort_desc xs = rev (sort_key snd (rev xs))"

text \<open>
  A pandas Series is the list of its (label, value) entries. \<^verbatim>\<open>label in s\<close> looks at the
  labels; \<^verbatim>\<open>s[label]\<close> selects every entry with that label; \<^verbatim>\<open>s.drop_duplicates()\<close> keeps
  the first entry of every \<^emph>\<open>value\<close>.
\<close>

type_synonym ('k, 'v) series = "('k \<times> 'v) list"

definition series_contains :: "('k, 'v) series \<Rightarrow> 'k \<Rightarrow> bool" where
  "series_contains s k = (k \<in> set (map fst s))"

definition series_getitem :: "('k, 'v) series \<Rightarrow> 'k \<Rightarrow> 'v list" where
  "series_getitem s k = map snd (filter (\<lambda>e. fst e = k) s)"

fun drop_duplicates_from :: "'v list \<Rightarrow> ('k, 'v) series \<Rightarrow> ('k, 'v) series" where
  "drop_duplicates_from seen [] = []"
| "drop_duplicates_from seen (e # s) =
     (if snd e \<in> set seen then drop_duplicates_from seen s
      else e # drop_duplicates_from (snd e # seen) s)"

definition drop_duplicates :: "('k, 'v) series \<Rightarrow> ('k, 'v) series" where
  "drop_duplicates s = drop_duplicates_from [] s"

text \<open>
  \<^verbatim>\<open>movies_df['title'].iloc[movie_indices].tolist()\<close>: positional selection, which raises
  on a position outside the frame.
\<close>

definition iloc_titles :: "movie_row list \<Rightarrow> nat list \<Rightarrow> py_error + string list" where
  "iloc_titles movies_df movie_indices =
     (if list_all (\<lambda>i. i < length movies_df) movie_indices
      then Inr (map (\<lambda>i. title (movies_df ! i)) movie_indices)
      else Inl IndexError)"

section \<open>data\_loader: the reverse title index\<close>

text \<open>
  \<^verbatim>\<open>indices = pd.Series(movies_df.index, index=movies_df['title']).drop_duplicates()\<close>:
  the labels are the titles, the values are the row positions.
\<close>

definition build_indices :: "movie_row list \<Rightarrow> (string, nat) series" where
  "build_indices movies_df =
     drop_duplicates (zip (map title movies_df) [0..<length movies_df])"

section \<open>recommender: content-based recommendations\<close>

text \<open>
  \<^verbatim>\<open>get_content_based_recommendations(title, movies_df, similarity_matrix, indices,
  num_recommendations)\<close>. When the title labels one entry of \<^verbatim>\<open>indices\<close>, \<^verbatim>\<open>idx\<close> is a row
  position and the function ranks that row of the matrix. When the title labels several
  entries, \<^verbatim>\<open>indices[title]\<close> is a Series, \<^verbatim>\<open>similarity_matrix[idx]\<close> is a block of rows and
  the sort key of \<^verbatim>\<open>sorted\<close> is a whole row: comparing two such rows raises ValueError.
\<close>

definition get_content_based_recommendations ::
    "string \<Rightarrow> movie_row list \<Rightarrow> real list list \<Rightarrow> (string, nat) series \<Rightarrow> int
      \<Rightarrow> py_error + string list" where
  "get_content_based_recommendations t movies_df similarity_matrix indices num_recommendations =
     (if \<not> series_contains indices t then Inr []
      else
        (case series_getitem indices t of
          [idx] \<Rightarrow>
            (if idx < length similarity_matrix then
               (let sim_scores = enumerate 0 (similarity_matrix ! idx);
                    sim_scores = sort_desc sim_scores;
                    sim_scores = py_slice 1 (num_recommendations + 1) sim_scores;
                    movie_indices = map fst sim_scores
                in iloc_titles movies_df movie_indices)
             else Inl IndexError)
        | idxs \<Rightarrow>
            (if list_all (\<lambda>i. i < length similarity_matrix) idxs
             then Inl ValueError else Inl IndexError)))"

section \<open>recommender: collaborative recommendations\<close>

text \<open>
  The numeric stage is library code working in floating point:
  \<^verbatim>\<open>TruncatedSVD(n_components=12, random_state=42).fit_transform\<close>, which raises on a
  matrix too small for twelve components, and \<^verbatim>\<open>cosine_similarity\<close>. The model takes both
  as parameters, over the reals, so that every result below holds whatever they compute.
\<close>

record numeric_lib =
  fit_transform :: "real list list \<Rightarrow> py_error + real list list"
  cosine_similarity :: "real list list \<Rightarrow> real list list \<Rightarrow> real list list"

text \<open>
  \<^verbatim>\<open>ratings_df.pivot(index='movie_id', columns='user_id', values='rating').fillna(0)\<close>:
  one row per rated movie and one column per rating user, both in ascending order; a
  missing rating is 0. pandas refuses to pivot when a (movie, user) pair occurs twice.
\<close>

record pivot_table =
  pt_index :: "int list"
  pt_columns :: "int list"
  pt_values :: "real list list"

definition cell :: "rating_row list \<Rightarrow> int \<Rightarrow> int \<Rightarrow> real" where
  "cell ratings_df m u =
     (case find (\<lambda>r. r_movie_id r = m \<and> r_user_id r = u) ratings_df of
        None \<Rightarrow> 0
      | Some r \<Rightarrow> r_rating r)"

definition pivot_fillna :: "rating_row list \<Rightarrow> py_error + pivot_table" where
  "pivot_fillna ratings_df =
     (if distinct (map (\<lambda>r. (r_movie_id r, r_user_id r)) ratings_df) then
        (let idx = sort (remdups (map r_movie_id ratings_df));
             cols = sort (remdups (map r_user_id ratings_df))
         in Inr \<lparr>pt_index = idx, pt_columns = cols,
                 pt_values = map (\<lambda>m. map (\<lambda>u. cell ratings_df m u) cols) idx\<rparr>)
      else Inl ValueError)"

fun index_of :: "'a \<Rightarrow> 'a list \<Rightarrow> nat" where
  "index_of x [] = 0"
| "index_of x (y # ys) = (if x = y then 0 else Suc (index_of x ys))"

text \<open>\<^verbatim>\<open>movie_user_matrix.loc[:, user_id]\<close>: the column of a user, KeyError without one.\<close>

definition loc_column :: "pivot_table \<Rightarrow> int \<Rightarrow> py_error + real list" where
  "loc_column pt u =
     (if u \<in> set (pt_columns pt)
      then Inr (map (\<lambda>row. row ! index_of u (pt_columns pt)) (pt_values pt))
      else Inl KeyError)"

text \<open>\<^verbatim>\<open>pd.Series(values, index=labels)\<close> needs as many values as labels.\<close>

definition make_series :: "'v list \<Rightarrow> 'k list \<Rightarrow> py_error + ('k, 'v) series" where
  "make_series vals labels =
     (if length vals = length labels then Inr (zip labels vals) else Inl ValueError)"

definition unique :: "'a list \<Rightarrow> 'a list" where
  "unique xs = rev (remdups (rev xs))"

definition series_drop :: "'k list \<Rightarrow> ('k, 'v) series \<Rightarrow> ('k, 'v) series" where
  "series_drop labels s = filter (\<lambda>e. fst e \<notin> set labels) s"

definition series_head :: "int \<Rightarrow> ('k, 'v) series \<Rightarrow> ('k, 'v) series" where
  "series_head n s = py_slice 0 n s"

text \<open>
  The first part of \<^verbatim>\<open>get_collaborative_recommendations\<close>, up to the filtered ranking
  \<^verbatim>\<open>recommendations\<close>: the scored movie ids in descending score order, without the movies
  the user has rated.
\<close>

definition collaborative_ranking ::
    "numeric_lib \<Rightarrow> int \<Rightarrow> rating_row list \<Rightarrow> py_error + (int, real) series" where
  "collaborative_ranking lib user_id ratings_df =
     (case pivot_fillna ratings_df of
        Inl e \<Rightarrow> Inl e
      | Inr movie_user_matrix \<Rightarrow>
     (case fit_transform lib (pt_values movie_user_matrix) of
        Inl e \<Rightarrow> Inl e
      | Inr matrix \<Rightarrow>
     (let corr_matrix = cosine_similarity lib matrix matrix in
     (case loc_column movie_user_matrix user_id of
        Inl e \<Rightarrow> Inl e
      | Inr user_ratings \<Rightarrow>
     (let user_movie_corr = cosine_similarity lib [user_ratings] corr_matrix in
     (case make_series (concat user_movie_corr) (pt_index movie_user_matrix) of
        Inl e \<Rightarrow> Inl e
      | Inr s \<Rightarrow>
     (let recommendations = sort_desc s;
          rated_movies =
            unique (map r_movie_id (filter (\<lambda>r. r_user_id r = user_id) ratings_df))
      in Inr (series_drop rated_movies recommendations))))))))"

text \<open>
  The rest of the function: the ids of the first \<^verbatim>\<open>num_recommendations\<close> entries, the rows
  of \<^verbatim>\<open>movies_df\<close> whose id is among them (\<^verbatim>\<open>isin\<close>), and their titles.
\<close>

definition get_collaborative_recommendations ::
    "numeric_lib \<Rightarrow> int \<Rightarrow> rating_row list \<Rightarrow> movie_row list \<Rightarrow> int
      \<Rightarrow> py_error + string list" where
  "get_collaborative_recommendations lib user_id ratings_df movies_df num_recommendations =
     (case collaborative_ranking lib user_id ratings_df of
        Inl e \<Rightarrow> Inl e
      | Inr recommendations \<Rightarrow>
          (let top_recommendations = map fst (series_head num_recommendations recommendations);
               rec_movies = filter (\<lambda>m. movie_id m \<in> set top_recommendations) movies_df
           in Inr (map title rec_movies)))"

section \<open>app: the hybrid mix\<close>

text \<open>
  \<^verbatim>\<open>int(x)\<close> of a float truncates toward zero. The weight is a float of the slider; the
  model computes \<^verbatim>\<open>num_recommendations * (1 - hybrid_weight)\<close> over the reals, which is what
  the floats give whenever the product is representable (weights such as 0, 0.5 and 1).
\<close>

definition py_int :: "real \<Rightarrow> int" where
  "py_int x = (if 0 \<le> x then \<lfloor>x\<rfloor> else \<lceil>x\<rceil>)"

definition collab_count :: "int \<Rightarrow> real \<Rightarrow> int" where
  "collab_count num_recommendations hybrid_weight =
     py_int (of_int num_recommendations * (1 - hybrid_weight))"

text \<open>
  The loop \<^verbatim>\<open>for rec in ...: if rec not in hybrid_recs: hybrid_recs.append(rec)\<close>, with the
  list \<^verbatim>\<open>hybrid_recs\<close> as its state.
\<close>

fun append_new :: "'a list \<Rightarrow> 'a list \<Rightarrow> 'a list" where
  "append_new hybrid_recs [] = hybrid_recs"
| "append_new hybrid_recs (rec # recs) =
     (if rec \<in> set hybrid_recs then append_new hybrid_recs recs
      else append_new (hybrid_recs @ [rec]) recs)"

definition hybrid_mix :: "string list \<Rightarrow> string list \<Rightarrow> int \<Rightarrow> real \<Rightarrow> string list" where
  "hybrid_mix collab_recs content_recs num_recommendations hybrid_weight =
     (let content_count = num_recommendations - collab_count num_recommendations hybrid_weight;
          hybrid_recs = py_slice 0 (collab_count num_recommendations hybrid_weight) collab_recs
      in append_new hybrid_recs (py_slice 0 content_count content_recs))"

definition hybrid_recommendations ::
    "numeric_lib \<Rightarrow> int \<Rightarrow> string \<Rightarrow> rating_row list \<Rightarrow> movie_row list \<Rightarrow> real list list
      \<Rightarrow> (string, nat) series \<Rightarrow> int \<Rightarrow> real \<Rightarrow> py_error + string list" where
  "hybrid_recommendations lib user_id selected_movie ratings_df movies_df similarity_matrix
       indices num_recommendations hybrid_weight =
     (case get_collaborative_recommendations lib user_id ratings_df movies_df
             num_recommendations of
        Inl e \<Rightarrow> Inl e
      | Inr collab_recs \<Rightarrow>
     (case get_content_based_recommendations selected_movie movies_df similarity_matrix
             indices num_recommendations of
        Inl e \<Rightarrow> Inl e
      | Inr content_recs \<Rightarrow>
          Inr (hybrid_mix collab_recs content_recs num_recommendations hybrid_weight)))"

section \<open>Example data\<close>

text \<open>
  A three-movie catalogue in which the first two movies carry the same genre tags, with
  its similarity matrix (equal tags give equal scores), and the ratings of three users.
  \<open>exact_lib\<close> stands in for the numeric library where an example needs numbers: no
  reduction, and dot products for the similarity.
\<close>

definition demo_movies :: "movie_row list" where
  "demo_movies =
     [\<lparr>movie_id = 1, title = ''Alpha'', genres = [''drama'']\<rparr>,
      \<lparr>movie_id = 2, title = ''Beta'', genres = [''drama'']\<rparr>,
      \<lparr>movie_id = 3, title = ''Gamma'', genres = [''comedy'']\<rparr>]"

definition demo_similarity :: "real list list" where
  "demo_similarity = [[1, 1, 0], [1, 1, 0], [0, 0, 1]]"

definition demo_ratings :: "rating_row list" where
  "demo_ratings =
     [\<lparr>r_user_id = 1, r_movie_id = 1, r_rating = 5, r_timestamp = 0\<rparr>,
      \<lparr>r_user_id = 2, r_movie_id = 1, r_rating = 4, r_timestamp = 0\<rparr>,
      \<lparr>r_user_id = 2, r_movie_id = 3, r_rating = 5, r_timestamp = 0\<rparr>,
      \<lparr>r_user_id = 3, r_movie_id = 1, r_rating = 1, r_timestamp = 0\<rparr>,
      \<lparr>r_user_id = 3, r_movie_id = 2, r_rating = 2, r_timestamp = 0\<rparr>]"

definition dot :: "real list \<Rightarrow> real list \<Rightarrow> real" where
  "dot xs ys = sum_list (map2 (*) xs ys)"

definition exact_lib :: numeric_lib where
  "exact_lib =
     \<lparr>fit_transform = (\<lambda>m. Inr m),
      cosine_similarity = (\<lambda>xs ys. map (\<lambda>x. map (\<lambda>y. dot x y) ys) xs)\<rparr>"

definition twin_movies :: "movie_row list" where
  "twin_movies =
     [\<lparr>movie_id = 1, title = ''Titanic'', genres = [''drama'']\<rparr>,
      \<lparr>movie_id = 2, title = ''Titanic'', genres = [''drama'', ''romance'']\<rparr>]"

definition demo_movies_plus :: "movie_row list" where
  "demo_movies_plus =
     demo_movies @ [\<lparr>movie_id = 4, title = ''Delta'', genres = [''western'']\<rparr>]"

section \<open>Slices, sorting and series\<close>

lemmas example_defs =
  collaborative_ranking_def get_collaborative_recommendations_def pivot_fillna_def cell_def
  loc_column_def make_series_def unique_def series_drop_def series_head_def sort_desc_def
  py_slice_def py_clamp_def exact_lib_def dot_def demo_movies_def demo_ratings_def
  demo_similarity_def twin_movies_def demo_movies_plus_def Let_def
  get_content_based_recommendations_def series_contains_def series_getitem_def
  build_indices_def drop_duplicates_def iloc_titles_def enumerate_eq_zip upt_rec

lemma py_slice_0: "0 \<le> n \<Longrightarrow> py_slice 0 n xs = take (nat n) xs"
  by (simp add: py_slice_def py_clamp_def Let_def min_def)

lemma set_py_slice: "set (py_slice lo hi xs) \<subseteq> set xs"
  unfolding py_slice_def Let_def
  by (meson in_set_dropD in_set_takeD subsetI)

lemma length_py_slice_0: "0 \<le> n \<Longrightarrow> length (py_slice 0 n xs) \<le> nat n"
  by (simp add: py_slice_0)

lemma length_py_slice_1:
  "0 \<le> k \<Longrightarrow> length (py_slice 1 (k + 1) xs) = min (nat k) (length xs - 1)"
  by (auto simp: py_slice_def py_clamp_def Let_def)

lemma set_sort_desc: "set (sort_desc s) = set s"
  by (simp add: sort_desc_def)

lemma distinct_fst_sort_desc: "distinct (map fst (sort_desc s)) = distinct (map fst s)"
  by (simp add: sort_desc_def distinct_map)

lemma sorted_le_last: "sorted xs \<Longrightarrow> x \<in> set xs \<Longrightarrow> x \<le> last xs"
  by (induction xs) auto

lemma hd_sort_desc:
  assumes "distinct (map fst xs)" and "(i, s) \<in> set xs"
    and "\<And>j t. (j, t) \<in> set xs \<Longrightarrow> j \<noteq> i \<Longrightarrow> t < s"
  shows "hd (sort_desc xs) = (i, s)"
proof -
  let ?ys = "sort_key snd (rev xs)"
  have ne: "?ys \<noteq> []"
    using assms(2) by (metis empty_iff empty_set set_rev set_sort)
  have mem: "(i, s) \<in> set ?ys"
    using assms(2) by simp
  have "sorted (map snd ?ys)"
    by (rule sorted_sort_key)
  moreover have "s \<in> set (map snd ?ys)"
    using mem by force
  ultimately have "s \<le> last (map snd ?ys)"
    by (rule sorted_le_last)
  then have ge: "s \<le> snd (last ?ys)"
    using ne by (simp add: last_map)
  obtain j t where last: "last ?ys = (j, t)"
    by (cases "last ?ys")
  have in_xs: "(j, t) \<in> set xs"
    using last_in_set [OF ne] last by simp
  have "j = i"
  proof (rule ccontr)
    assume "j \<noteq> i"
    from assms(3) [OF in_xs this] ge last show False by simp
  qed
  with in_xs assms(1,2) have "t = s"
    by (meson eq_key_imp_eq_value)
  with \<open>j = i\<close> last have "last ?ys = (i, s)"
    by simp
  with ne show ?thesis
    by (simp add: sort_desc_def hd_rev)
qed

lemma set_py_slice_1: "set (py_slice 1 hi xs) \<subseteq> set (tl xs)"
proof (cases xs)
  case Nil
  then show ?thesis by (simp add: py_slice_def)
next
  case (Cons x xs')
  then have "py_clamp (length xs) 1 = 1"
    by (simp add: py_clamp_def)
  with Cons show ?thesis
    by (auto simp: py_slice_def Let_def dest: in_set_takeD)
qed

lemma py_slice_1_all:
  assumes "int (length xs) - 1 \<le> k"
  shows "py_slice 1 (k + 1) xs = tl xs"
proof (cases xs)
  case Nil
  then show ?thesis by (simp add: py_slice_def)
next
  case (Cons x xs')
  with assms have "py_clamp (length xs) 1 = 1" and "py_clamp (length xs) (k + 1) = length xs"
    by (auto simp: py_clamp_def)
  with Cons show ?thesis
    by (simp add: py_slice_def)
qed

lemma length_sort_desc: "length (sort_desc s) = length s"
  by (simp add: sort_desc_def)





section \<open>The reverse title index\<close>

text \<open>
  The values of the index are the row positions, which never repeat, so
  \<^verbatim>\<open>drop_duplicates\<close> removes nothing: every row keeps its entry.
\<close>

lemma drop_duplicates_from_id:
  "distinct (map snd s) \<Longrightarrow> set (map snd s) \<inter> set seen = {}
    \<Longrightarrow> drop_duplicates_from seen s = s"
  by (induction s arbitrary: seen) auto

lemma build_indices_eq:
  "build_indices movies_df = zip (map title movies_df) [0..<length movies_df]"
  unfolding build_indices_def drop_duplicates_def
  by (rule drop_duplicates_from_id) simp_all

lemma getitem_distinct:
  "distinct xs \<Longrightarrow> i < length xs
    \<Longrightarrow> series_getitem (zip xs [k..<k + length xs]) (xs ! i) = [k + i]"
proof (induction xs arbitrary: i k)
  case Nil
  then show ?case by simp
next
  case (Cons x xs)
  have upt: "[k..<k + length (x # xs)] = k # [Suc k..<Suc k + length xs]"
    by (simp add: upt_rec)
  show ?case
  proof (cases i)
    case 0
    have "filter (\<lambda>e. fst e = x) (zip xs [Suc k..<Suc k + length xs]) = []"
      using Cons.prems(1) by (auto simp: filter_empty_conv dest: set_zip_leftD)
    with 0 show ?thesis
      unfolding upt by (simp add: series_getitem_def)
  next
    case (Suc i')
    with Cons.prems have neq: "x \<noteq> xs ! i'" and d: "distinct xs" and i': "i' < length xs"
      by auto
    from Cons.IH [OF d i', of "Suc k"] neq Suc show ?thesis
      unfolding upt by (simp add: series_getitem_def)
  qed
qed

lemma build_indices_getitem:
  assumes "distinct (map title ms)" and "idx < length ms"
  shows "series_getitem (build_indices ms) (title (ms ! idx)) = [idx]"
    and "series_contains (build_indices ms) (title (ms ! idx))"
proof -
  from getitem_distinct [OF assms(1), of idx 0] assms(2)
  show "series_getitem (build_indices ms) (title (ms ! idx)) = [idx]"
    by (simp add: build_indices_eq)
  show "series_contains (build_indices ms) (title (ms ! idx))"
    using assms(2) by (simp add: series_contains_def build_indices_eq)
qed

text \<open>
  C4. The claim: when two movies share a title, the index keeps exactly one entry for it,
  so a lookup yields a single row position. In a catalogue of two movies both titled
  Titanic the index keeps both entries, and the lookup of the title yields both rows.
\<close>

theorem shared_title_keeps_both_rows:
  "build_indices twin_movies = [(''Titanic'', 0), (''Titanic'', 1)]
   \<and> series_getitem (build_indices twin_movies) ''Titanic'' = [0, 1]"
  by (simp add: example_defs)

text \<open>With both rows selected the ranking compares whole rows of the matrix and raises.\<close>

lemma shared_title_raises:
  "get_content_based_recommendations ''Titanic'' twin_movies [[1, 1/2], [1/2, 1]]
     (build_indices twin_movies) 3 = Inl ValueError"
  by (simp add: example_defs)

section \<open>Content-based recommendations\<close>

text \<open>
  C8. For a title that is not a label of the title index, and for every requested number
  of recommendations, \<^verbatim>\<open>get_content_based_recommendations\<close> returns the empty list and
  raises nothing.
\<close>

theorem content_miss_returns_empty:
  assumes "t \<notin> fst ` set indices"
  shows "get_content_based_recommendations t movies_df similarity_matrix indices k = Inr []"
  using assms by (simp add: get_content_based_recommendations_def series_contains_def)

theorem content_miss_returns_empty_witness:
  "''Nonexistent'' \<notin> fst ` set (build_indices demo_movies)
   \<and> get_content_based_recommendations ''Nonexistent'' demo_movies demo_similarity
       (build_indices demo_movies) 5 = Inr []"
proof -
  have miss: "''Nonexistent'' \<notin> fst ` set (build_indices demo_movies)"
    by (simp add: example_defs)
  show ?thesis
    using miss content_miss_returns_empty [OF miss] by simp
qed

text \<open>
  What the function returns is a list of catalogue titles, no longer than the number asked
  for.
\<close>

lemma iloc_titles_Inr:
  assumes "iloc_titles movies_df is = Inr ts"
  shows "ts = map (\<lambda>i. title (movies_df ! i)) is" and "set is \<subseteq> {..<length movies_df}"
  using assms by (auto simp: iloc_titles_def list_all_iff split: if_splits)

lemma content_result_bounds:
  assumes "get_content_based_recommendations t movies_df similarity_matrix indices k = Inr ts"
  shows "set ts \<subseteq> title ` set movies_df" and "0 \<le> k \<Longrightarrow> length ts \<le> nat k"
proof -
  show "set ts \<subseteq> title ` set movies_df"
  proof (cases "series_contains indices t")
    case False
    with assms show ?thesis
      by (simp add: get_content_based_recommendations_def)
  next
    case True
    with assms obtain "is" where "iloc_titles movies_df is = Inr ts"
      by (auto simp: get_content_based_recommendations_def Let_def
          split: if_splits list.splits)
    from iloc_titles_Inr [OF this] show ?thesis
      by auto
  qed
  show "length ts \<le> nat k" if "0 \<le> k"
    using assms that
    by (auto simp: get_content_based_recommendations_def Let_def length_py_slice_1
        split: if_splits list.splits dest!: iloc_titles_Inr(1))
qed

text \<open>
  When the titles of the catalogue are distinct and the query's own score is strictly the
  greatest of its row, the query is the first of the sorted list: the function then returns
  titles without the query's, and all the other titles when asked for at least as many as
  there are.
\<close>

lemma content_strict_best:
  assumes titles: "distinct (map title ms)"
    and idx: "idx < length ms" "idx < length sim"
    and row: "length (sim ! idx) = length ms"
    and best: "\<And>j. j < length ms \<Longrightarrow> j \<noteq> idx \<Longrightarrow> sim ! idx ! j < sim ! idx ! idx"
  shows "\<exists>ts. get_content_based_recommendations (title (ms ! idx)) ms sim (build_indices ms) k
            = Inr ts
          \<and> title (ms ! idx) \<notin> set ts
          \<and> (int (length ms) - 1 \<le> k
                \<longrightarrow> set ts = title ` set ms - {title (ms ! idx)})"
proof -
  let ?E = "enumerate 0 (sim ! idx)"
  let ?S = "sort_desc ?E"
  let ?top = "py_slice 1 (k + 1) ?S"
  have dE: "distinct (map fst ?E)"
    by simp
  have "(idx, sim ! idx ! idx) \<in> set ?E"
    using idx row by (simp add: in_set_enumerate_eq)
  moreover have "t < sim ! idx ! idx" if "(j, t) \<in> set ?E" and "j \<noteq> idx" for j t
    using that best [of j] row by (auto simp: in_set_enumerate_eq)
  ultimately have hd: "hd ?S = (idx, sim ! idx ! idx)"
    using dE by (intro hd_sort_desc) 
  have ne: "?S \<noteq> []"
    using idx row by (metis length_sort_desc length_enumerate length_0_conv not_less_zero)
  then have S: "?S = (idx, sim ! idx ! idx) # tl ?S"
    using hd by (metis list.collapse)
  have dS: "distinct (map fst ?S)"
    using dE by (simp only: distinct_fst_sort_desc)
  have tail_no_idx: "idx \<notin> fst ` set (tl ?S)"
    using dS by (subst (asm) S) simp
  have "fst ` set ?S = set (map fst ?E)"
    by (simp only: set_sort_desc set_map)
  also have "map fst ?E = [0..<length ms]"
    using row by simp
  also have "set [0..<length ms] = {..<length ms}"
    by (simp add: atLeast0LessThan)
  finally have fstS: "fst ` set ?S = {..<length ms}" .
  then have tail_set: "fst ` set (tl ?S) = {..<length ms} - {idx}"
    using tail_no_idx by (subst (asm) S) auto
  have top_sub: "fst ` set ?top \<subseteq> {..<length ms} - {idx}"
    using set_py_slice_1 [of "k + 1" ?S] tail_set by blast
  then have in_range: "list_all (\<lambda>i. i < length ms) (map fst ?top)"
    by (auto simp: list_all_iff)
  let ?ts = "map (\<lambda>i. title (ms ! i)) (map fst ?top)"
  have run: "get_content_based_recommendations (title (ms ! idx)) ms sim (build_indices ms) k
      = Inr ?ts"
    using build_indices_getitem [OF titles idx(1)] idx(2) in_range
    by (simp add: get_content_based_recommendations_def iloc_titles_def Let_def)
  have title_inj: "title (ms ! i) = title (ms ! idx) \<longleftrightarrow> i = idx" if "i < length ms" for i
    using titles that idx(1) by (metis length_map nth_eq_iff_index_eq nth_map)
  have excl: "title (ms ! idx) \<notin> set ?ts"
    using top_sub title_inj by fastforce
  have all: "set ?ts = title ` set ms - {title (ms ! idx)}" if "int (length ms) - 1 \<le> k"
  proof -
    have "?top = tl ?S"
      using that row by (intro py_slice_1_all) (simp add: length_sort_desc)
    then have "set ?ts = (\<lambda>i. title (ms ! i)) ` fst ` set (tl ?S)"
      by (simp only: set_map)
    also have "\<dots> = (\<lambda>i. title (ms ! i)) ` ({..<length ms} - {idx})"
      by (simp only: tail_set)
    also have "\<dots> = title ` set ms - {title (ms ! idx)}"
    proof (intro set_eqI iffI)
      fix x
      assume "x \<in> (\<lambda>i. title (ms ! i)) ` ({..<length ms} - {idx})"
      then obtain i where "i < length ms" and "i \<noteq> idx" and "x = title (ms ! i)"
        by auto
      then show "x \<in> title ` set ms - {title (ms ! idx)}"
        using title_inj [of i] nth_mem [of i ms] by auto
    next
      fix x
      assume "x \<in> title ` set ms - {title (ms ! idx)}"
      then obtain i where "i < length ms" and "x = title (ms ! i)"
          and "x \<noteq> title (ms ! idx)"
        by (auto simp: in_set_conv_nth)
      then show "x \<in> (\<lambda>i. title (ms ! i)) ` ({..<length ms} - {idx})"
        by auto
    qed
    finally show ?thesis .
  qed
  from run excl all show ?thesis
    by auto
qed

text \<open>
  C5. The claim: the output never contains the query title, also when other movies tie
  with the query on the score. In the example catalogue Alpha and Beta carry the same tags
  and tie; the stable sort puts Alpha first, the slice drops it, and the movies returned
  as similar to Beta start with Beta itself.
\<close>

theorem tied_query_is_returned:
  "get_content_based_recommendations ''Beta'' demo_movies demo_similarity
     (build_indices demo_movies) 3 = Inr [''Beta'', ''Gamma'']"
  by (simp add: example_defs)

text \<open>
  C9. The claim: the result has at most the requested length, and a request for more
  than the catalogue holds returns all eligible movies. The length bound holds
  (\<open>content_result_bounds\<close>); but asked for five movies similar to Beta in the
  three-movie catalogue, the function returns Beta and Gamma: the eligible Alpha is left
  out, and the query takes its place.
\<close>

theorem large_request_misses_eligible:
  "get_content_based_recommendations ''Beta'' demo_movies demo_similarity
     (build_indices demo_movies) 5 = Inr [''Beta'', ''Gamma'']
   \<and> ''Alpha'' \<notin> set [''Beta'', ''Gamma'']
   \<and> ''Alpha'' \<in> title ` set demo_movies"
  by (simp add: example_defs)

section \<open>Collaborative recommendations\<close>

lemma pivot_fillna_Inr:
  assumes "pivot_fillna rs = Inr pt"
  shows "set (pt_index pt) = r_movie_id ` set rs"
    and "set (pt_columns pt) = r_user_id ` set rs"
    and "distinct (pt_index pt)"
  using assms by (auto simp: pivot_fillna_def Let_def split: if_splits)

lemma make_series_Inr:
  assumes "make_series vals labels = Inr s"
  shows "map fst s = labels"
  using assms by (auto simp: make_series_def split: if_splits)

text \<open>
  A ranking exists only for a user with a column in the pivot table; it holds each rated
  movie at most once, and none of the movies the user has rated.
\<close>

lemma collaborative_ranking_Inr:
  assumes "collaborative_ranking lib u rs = Inr recs"
  shows "u \<in> r_user_id ` set rs"
    and "fst ` set recs \<subseteq> r_movie_id ` set rs"
    and "fst ` set recs \<inter> r_movie_id ` {r \<in> set rs. r_user_id r = u} = {}"
    and "distinct (map fst recs)"
proof -
  from assms obtain pt s where
    pt: "pivot_fillna rs = Inr pt" and
    u: "u \<in> set (pt_columns pt)" and
    s: "map fst s = pt_index pt" and
    recs: "recs = series_drop
      (unique (map r_movie_id (filter (\<lambda>r. r_user_id r = u) rs))) (sort_desc s)"
    by (auto simp: collaborative_ranking_def Let_def loc_column_def
        split: sum.splits if_splits dest: make_series_Inr)
  show "u \<in> r_user_id ` set rs"
    using u pivot_fillna_Inr(2) [OF pt] by simp
  have "fst ` set s = r_movie_id ` set rs"
    using s pivot_fillna_Inr(1) [OF pt] by (metis set_map)
  then show "fst ` set recs \<subseteq> r_movie_id ` set rs"
    unfolding recs series_drop_def by (auto simp: set_sort_desc)
  show "fst ` set recs \<inter> r_movie_id ` {r \<in> set rs. r_user_id r = u} = {}"
    unfolding recs series_drop_def unique_def by auto
  have "distinct (map fst (sort_desc s))"
    using s pivot_fillna_Inr(3) [OF pt] by (simp add: distinct_fst_sort_desc)
  then show "distinct (map fst recs)"
    unfolding recs series_drop_def by (rule distinct_map_filter)
qed

lemma collaborative_Inr:
  assumes "get_collaborative_recommendations lib u rs ms k = Inr ts"
  obtains recs where "collaborative_ranking lib u rs = Inr recs"
    and "ts = map title (filter (\<lambda>m. movie_id m \<in> fst ` set (series_head k recs)) ms)"
  using assms
  by (auto simp: get_collaborative_recommendations_def Let_def split: sum.splits)

lemma selected_rows_in_ranking:
  "movie_id ` set (filter (\<lambda>m. movie_id m \<in> fst ` set (series_head k recs)) ms)
    \<subseteq> fst ` set recs"
proof -
  have "set (series_head k recs) \<subseteq> set recs"
    by (simp add: series_head_def set_py_slice)
  then show ?thesis
    by auto
qed

text \<open>
  Whatever the numeric stage computes, a user without ratings gets an exception, never a
  list.
\<close>

lemma unknown_user_is_error:
  assumes "u \<notin> r_user_id ` set rs"
  shows "\<exists>e. get_collaborative_recommendations lib u rs ms k = Inl e"
proof (cases "get_collaborative_recommendations lib u rs ms k")
  case (Inl e)
  then show ?thesis by blast
next
  case (Inr ts)
  then obtain recs where "collaborative_ranking lib u rs = Inr recs"
    by (rule collaborative_Inr)
  with assms show ?thesis
    using collaborative_ranking_Inr(1) by blast
qed


text \<open>
  The titles come out in the row order of the catalogue: the selection by \<^verbatim>\<open>isin\<close> keeps
  the rows of \<^verbatim>\<open>movies_df\<close> in place, whatever the ranking was.
\<close>

lemma collaborative_catalogue_order:
  assumes "get_collaborative_recommendations lib u rs ms k = Inr ts"
  shows "subseq ts (map title ms)"
  using assms by (auto elim!: collaborative_Inr intro!: subseq_map)




text \<open>
  C10. When \<^verbatim>\<open>get_collaborative_recommendations\<close> returns titles, they are the titles of
  catalogue rows each of which is a movie with a rating in \<^verbatim>\<open>ratings_df\<close>: a catalogue
  movie nobody has rated is never recommended.
\<close>

theorem collaborative_only_rated_movies:
  assumes "get_collaborative_recommendations lib user_id ratings_df movies_df k = Inr ts"
  shows "\<exists>rec_movies. ts = map title rec_movies \<and> set rec_movies \<subseteq> set movies_df \<and>
           movie_id ` set rec_movies \<subseteq> r_movie_id ` set ratings_df"
proof -
  from assms obtain recs where
    recs: "collaborative_ranking lib user_id ratings_df = Inr recs" and
    ts: "ts = map title
      (filter (\<lambda>m. movie_id m \<in> fst ` set (series_head k recs)) movies_df)"
    by (rule collaborative_Inr)
  let ?rows = "filter (\<lambda>m. movie_id m \<in> fst ` set (series_head k recs)) movies_df"
  from collaborative_ranking_Inr(2) [OF recs] selected_rows_in_ranking [of k recs movies_df]
  have "movie_id ` set ?rows \<subseteq> r_movie_id ` set ratings_df"
    by blast
  with ts show ?thesis
    by (intro exI [of _ ?rows]) simp
qed

theorem collaborative_only_rated_movies_witness:
  "get_collaborative_recommendations exact_lib 1 demo_ratings demo_movies_plus 5
     = Inr [''Beta'', ''Gamma'']
   \<and> (\<exists>rec_movies. [''Beta'', ''Gamma''] = map title rec_movies
        \<and> set rec_movies \<subseteq> set demo_movies_plus
        \<and> movie_id ` set rec_movies \<subseteq> r_movie_id ` set demo_ratings)"
proof -
  have run: "get_collaborative_recommendations exact_lib 1 demo_ratings demo_movies_plus 5
      = Inr [''Beta'', ''Gamma'']"
    by (simp add: example_defs)
  show ?thesis
    using run collaborative_only_rated_movies [OF run] by simp
qed

text \<open>
  With distinct movie ids in the catalogue the result is no longer than the number asked
  for.
\<close>

lemma collaborative_length:
  assumes "get_collaborative_recommendations lib u rs ms k = Inr ts"
    and "distinct (map movie_id ms)" and "0 \<le> k"
  shows "length ts \<le> nat k"
proof -
  from assms(1) obtain recs where
    "collaborative_ranking lib u rs = Inr recs" and
    ts: "ts = map title (filter (\<lambda>m. movie_id m \<in> fst ` set (series_head k recs)) ms)"
    by (rule collaborative_Inr)
  let ?top = "series_head k recs"
  let ?rows = "filter (\<lambda>m. movie_id m \<in> fst ` set ?top) ms"
  have "distinct (map movie_id ?rows)"
    using assms(2) by (rule distinct_map_filter)
  then have "length ?rows = card (movie_id ` set ?rows)"
    by (metis distinct_card length_map set_map)
  also have "\<dots> \<le> card (fst ` set ?top)"
    by (rule card_mono) auto
  also have "\<dots> \<le> length ?top"
    by (metis card_length length_map set_map)
  also have "\<dots> \<le> nat k"
    using assms(3) by (simp add: series_head_def length_py_slice_0)
  finally show ?thesis
    by (simp add: ts)
qed

section \<open>The hybrid mix\<close>

text \<open>
  The hybrid branch calls both recommenders first, so it raises whenever one of them does:
  in particular for a user without ratings.
\<close>

lemma hybrid_unknown_user_is_error:
  assumes "u \<notin> r_user_id ` set rs"
  shows "\<exists>e. hybrid_recommendations lib u t rs ms sim indices k w = Inl e"
proof -
  from unknown_user_is_error [OF assms]
  obtain e where "get_collaborative_recommendations lib u rs ms k = Inl e"
    by blast
  then show ?thesis
    by (simp add: hybrid_recommendations_def)
qed







end
